theory Spec2Isabelle
  imports Main "HOL-Library.AList"
begin

section \<open>JavaScript values\<close>

text \<open>
  The client in \<^verbatim>\<open>lib/index.js\<close> (class \<^verbatim>\<open>PushwooshClient\<close>) handles plain
  JavaScript data: option objects, message ids, callbacks. A value is one of the
  primitive kinds, an array, an object (its own enumerable properties in the order
  JavaScript enumerates them) or a function. Numbers are integers here: the code only tests
  \<^verbatim>\<open>_.isNumber\<close> and compares status codes with \<^verbatim>\<open>=== 200\<close>. A function is
  named by a number; only a completion callback is ever a function.

  The file holds three revisions of the client, one after the other. The model is
  of the first, lines 1 to 210: the class whose \<^verbatim>\<open>sendMessage (options, cb)\<close>
  takes one options object and whose transport is \<^verbatim>\<open>got\<close>.
\<close>

datatype jsval =
    JUndefined
  | JNull
  | JBool bool
  | JNum int
  | JStr string
  | JArr "jsval list"
  | JObj "(string \<times> jsval) list"
  | JFun nat

type_synonym obj = "(string \<times> jsval) list"

text \<open>The lodash predicates the code calls.\<close>

fun isString :: "jsval \<Rightarrow> bool" where
  "isString (JStr s) = True"
| "isString v = False"

fun isNumber :: "jsval \<Rightarrow> bool" where
  "isNumber (JNum n) = True"
| "isNumber v = False"

fun isFunction :: "jsval \<Rightarrow> bool" where
  "isFunction (JFun f) = True"
| "isFunction v = False"

text \<open>Truthiness, as \<^verbatim>\<open>if (x)\<close> and \<^verbatim>\<open>x || y\<close> test it.\<close>

fun truthy :: "jsval \<Rightarrow> bool" where
  "truthy JUndefined = False"
| "truthy JNull = False"
| "truthy (JBool b) = b"
| "truthy (JNum n) = (n \<noteq> 0)"
| "truthy (JStr s) = (s \<noteq> [])"
| "truthy v = True"

text \<open>
  Reading a property \<^verbatim>\<open>o.name\<close>. The names the code reads from caller data
  (\<^verbatim>\<open>push_token\<close>, \<^verbatim>\<open>hwid\<close>, \<^verbatim>\<open>device_type\<close>) are no built-in property of a
  primitive, an array or a function, so every value but an object gives
  \<^verbatim>\<open>undefined\<close>; reading from \<^verbatim>\<open>undefined\<close> or \<^verbatim>\<open>null\<close> throws and is
  tested by \<open>nullish\<close> before \<open>get_prop\<close> is used.
\<close>

fun nullish :: "jsval \<Rightarrow> bool" where
  "nullish JUndefined = True"
| "nullish JNull = True"
| "nullish v = False"

fun get_prop :: "jsval \<Rightarrow> string \<Rightarrow> jsval" where
  "get_prop (JObj ps) name = (case map_of ps name of None \<Rightarrow> JUndefined | Some v \<Rightarrow> v)"
| "get_prop v name = JUndefined"

subsection \<open>\<^verbatim>\<open>_.extend\<close>\<close>

text \<open>
  \<^verbatim>\<open>_.extend(object, ...sources)\<close> copies the enumerable properties of each source
  onto \<open>object\<close>, from left to right, a later source overwriting an earlier one. An
  object gives its properties, an array its elements under the keys
  \<^verbatim>\<open>"0"\<close>, \<^verbatim>\<open>"1"\<close>, ..., a string its characters under the same keys; a number, a
  boolean, a function, \<^verbatim>\<open>null\<close> and \<^verbatim>\<open>undefined\<close> give nothing.
\<close>

definition digit :: "nat \<Rightarrow> char" where
  "digit d = ''0123456789'' ! d"

fun string_of_nat :: "nat \<Rightarrow> string" where
  "string_of_nat n =
     (if n < 10 then [digit n] else string_of_nat (n div 10) @ [digit (n mod 10)])"

declare string_of_nat.simps [simp del]

fun index_props :: "nat \<Rightarrow> jsval list \<Rightarrow> obj" where
  "index_props i [] = []"
| "index_props i (x # xs) = (string_of_nat i, x) # index_props (Suc i) xs"

fun enumerable_props :: "jsval \<Rightarrow> obj" where
  "enumerable_props (JObj ps) = ps"
| "enumerable_props (JArr xs) = index_props 0 xs"
| "enumerable_props (JStr s) = index_props 0 (map (\<lambda>c. JStr [c]) s)"
| "enumerable_props v = []"

text \<open>
  \<^verbatim>\<open>object[key] = value\<close>. An existing key keeps its place and takes the new
  value. A new key that is an array index (a decimal numeral with no leading zero,
  below \<^verbatim>\<open>2^32 - 1\<close>) goes among the array indices, which an object enumerates
  first and in ascending order; any other new key goes last.
\<close>

fun digit_position :: "string \<Rightarrow> nat \<Rightarrow> char \<Rightarrow> nat option" where
  "digit_position [] d c = None"
| "digit_position (x # xs) d c = (if c = x then Some d else digit_position xs (Suc d) c)"

definition digit_value :: "char \<Rightarrow> nat option" where
  "digit_value c = digit_position ''0123456789'' 0 c"

fun decimal_value :: "nat \<Rightarrow> string \<Rightarrow> nat option" where
  "decimal_value n [] = Some n"
| "decimal_value n (c # cs) =
     (case digit_value c of
        None \<Rightarrow> None
      | Some d \<Rightarrow> decimal_value (10 * n + d) cs)"

definition array_index :: "string \<Rightarrow> nat option" where
  "array_index key =
     (if key = [] then None
      else if hd key = CHR ''0'' \<and> key \<noteq> ''0'' then None
      else case decimal_value 0 key of
             None \<Rightarrow> None
           | Some n \<Rightarrow> if n < 4294967295 then Some n else None)"

fun insert_index :: "nat \<Rightarrow> string \<Rightarrow> jsval \<Rightarrow> obj \<Rightarrow> obj" where
  "insert_index n key v [] = [(key, v)]"
| "insert_index n key v ((k, x) # object) =
     (case array_index k of
        None \<Rightarrow> (key, v) # (k, x) # object
      | Some m \<Rightarrow>
          if m < n then (k, x) # insert_index n key v object
          else (key, v) # (k, x) # object)"

definition set_prop :: "string \<Rightarrow> jsval \<Rightarrow> obj \<Rightarrow> obj" where
  "set_prop key v object =
     (case map_of object key of
        Some old \<Rightarrow> AList.update key v object
      | None \<Rightarrow>
          (case array_index key of
             Some n \<Rightarrow> insert_index n key v object
           | None \<Rightarrow> object @ [(key, v)]))"

text \<open>\<open>assign object props\<close> sets each property in turn.\<close>

fun assign :: "obj \<Rightarrow> obj \<Rightarrow> obj" where
  "assign object [] = object"
| "assign object ((key, v) # props) = assign (set_prop key v object) props"

definition extend_obj :: "obj \<Rightarrow> jsval list \<Rightarrow> obj" where
  "extend_obj object sources =
     fold (\<lambda>source object'. assign object' (enumerable_props source)) sources object"

section \<open>The client and its constructor\<close>

text \<open>
  \<^verbatim>\<open>const defaults = {host: 'cp.pushwoosh.com', url: 'https://cp.pushwoosh.com/json',
  version: '1.3'}\<close>, and the constructor
  \<^verbatim>\<open>_.extend(this, defaults, options, {app: app, token: token})\<close>.
  The options object is typed: the keys the client reads (\<^verbatim>\<open>host\<close>, \<^verbatim>\<open>version\<close>,
  \<^verbatim>\<open>useAppGroup\<close>), the unused \<^verbatim>\<open>url\<close>, and \<^verbatim>\<open>timeout\<close>, each present or
  absent; \<^verbatim>\<open>host\<close>, \<^verbatim>\<open>url\<close> and \<^verbatim>\<open>version\<close> are strings, as the defaults are.
  A key that is absent from both the defaults and the options is \<^verbatim>\<open>undefined\<close> on
  the client.
\<close>

record options =
  opt_host :: "string option"
  opt_url :: "string option"
  opt_version :: "string option"
  opt_useAppGroup :: "jsval option"
  opt_timeout :: "jsval option"

record client =
  host :: string
  url :: string
  version :: string
  useAppGroup :: jsval
  timeout :: jsval
  app :: string
  token :: string

datatype error =
    Error string
  | TypeError
  | TransportError string

definition no_options :: options where
  "no_options =
     \<lparr>opt_host = None, opt_url = None, opt_version = None,
      opt_useAppGroup = None, opt_timeout = None\<rparr>"

definition default_host :: string where
  "default_host = ''cp.pushwoosh.com''"

definition default_url :: string where
  "default_url = ''https://cp.pushwoosh.com/json''"

definition default_version :: string where
  "default_version = ''1.3''"

fun the_string :: "jsval \<Rightarrow> string" where
  "the_string (JStr s) = s"
| "the_string v = []"

definition or_default :: "'a option \<Rightarrow> 'a \<Rightarrow> 'a" where
  "or_default x d = (case x of None \<Rightarrow> d | Some v \<Rightarrow> v)"

text \<open>
  \<^verbatim>\<open>constructor (app, token, options)\<close>: \<^verbatim>\<open>options = options || {}\<close>, then the
  check \<^verbatim>\<open>!_.isString(app) || !_.isString(token)\<close> throws
  \<^verbatim>\<open>new Error('Pushwoosh Application ID and an Authentication Token must be set')\<close>.
\<close>

definition constructor :: "jsval \<Rightarrow> jsval \<Rightarrow> options option \<Rightarrow> error + client" where
  "constructor app' token' options' =
     (let options = or_default options' no_options in
      if \<not> isString app' \<or> \<not> isString token'
      then Inl (Error ''Pushwoosh Application ID and an Authentication Token must be set'')
      else Inr \<lparr>host = or_default (opt_host options) default_host,
                url = or_default (opt_url options) default_url,
                version = or_default (opt_version options) default_version,
                useAppGroup = or_default (opt_useAppGroup options) JUndefined,
                timeout = or_default (opt_timeout options) JUndefined,
                app = the_string app',
                token = the_string token'\<rparr>)"

section \<open>Responses, promises and callbacks\<close>

text \<open>
  The response the transport resolves with, as \<^verbatim>\<open>parseResponse\<close> reads it:
  \<^verbatim>\<open>response.statusCode\<close>, \<^verbatim>\<open>response.body.status_code\<close>,
  \<^verbatim>\<open>response.body.status_message\<close> and \<^verbatim>\<open>response.body.response\<close>.
  A response is an object that has a \<^verbatim>\<open>body\<close> object. The two status codes are
  any values (\<^verbatim>\<open>undefined\<close> when the field is absent): \<^verbatim>\<open>=== 200\<close> holds for
  the number 200 alone. The status message is the text the template literal of
  \<^verbatim>\<open>parseResponse\<close> prints for it.
\<close>

record api_body =
  status_code :: jsval
  status_message :: string
  response :: jsval

record api_response =
  statusCode :: jsval
  body :: api_body

text \<open>
  What a promise settles with and what a callback receives: caller data (with
  \<^verbatim>\<open>null\<close> and \<^verbatim>\<open>undefined\<close>), a transport response, or an error object.
\<close>

datatype val =
    Data jsval
  | Resp api_response
  | Err error

datatype promise =
    Pending
  | Fulfilled val
  | Rejected val

text \<open>
  The one request a call makes is answered by the transport (\<^verbatim>\<open>got\<close>): its promise
  fulfils with a response, rejects with an error of its own, or never settles.
\<close>

datatype transport =
    Responds api_response
  | Fails string
  | Hangs

text \<open>
  What a call does to the outside: the option objects passed to \<^verbatim>\<open>got\<close>, in
  order, and the argument lists the completion callback was called with, in order.
\<close>

record world =
  requests :: "obj list"
  cb_calls :: "val list list"

definition world0 :: world where
  "world0 = \<lparr>requests = [], cb_calls = []\<rparr>"

text \<open>
  A function body returns a value (a plain one or a promise) or throws. The state
  a handler runs in is the promise whose \<^verbatim>\<open>resolve\<close> and \<^verbatim>\<open>reject\<close> it was
  given, and the world.
\<close>

datatype ret =
    Plain val
  | Promise promise

datatype completion =
    Returns ret
  | Throws val

type_synonym state = "promise \<times> world"

text \<open>
  \<^verbatim>\<open>resolve.apply(this, args)\<close> and \<^verbatim>\<open>reject.apply(this, args)\<close>: the promise takes
  the first argument (\<^verbatim>\<open>undefined\<close> when there is none) unless it is settled
  already.
\<close>

definition first_arg :: "val list \<Rightarrow> val" where
  "first_arg args = (case args of [] \<Rightarrow> Data JUndefined | v # rest \<Rightarrow> v)"

definition resolve_apply :: "val list \<Rightarrow> promise \<Rightarrow> promise" where
  "resolve_apply args p = (case p of Pending \<Rightarrow> Fulfilled (first_arg args) | settled \<Rightarrow> p)"

definition reject_apply :: "val list \<Rightarrow> promise \<Rightarrow> promise" where
  "reject_apply args p = (case p of Pending \<Rightarrow> Rejected (first_arg args) | settled \<Rightarrow> p)"

text \<open>
  \<^verbatim>\<open>cb.apply(this, argArray)\<close> for the completion callback. With an array the
  callback is called with its elements: the call is recorded and returns. With a
  number \<^verbatim>\<open>Function.prototype.apply\<close> throws a \<^verbatim>\<open>TypeError\<close> before calling
  anything (its second argument must be an object, \<^verbatim>\<open>null\<close> or \<^verbatim>\<open>undefined\<close>).
\<close>

datatype arg_array =
    ArgArray "val list"
  | ArgNumber nat

definition cb_apply :: "arg_array \<Rightarrow> world \<Rightarrow> error option \<times> world" where
  "cb_apply argArray w =
     (case argArray of
        ArgArray args \<Rightarrow> (None, w\<lparr>cb_calls := cb_calls w @ [args]\<rparr>)
      | ArgNumber n \<Rightarrow> (Some TypeError, w))"

text \<open>
  \<^verbatim>\<open>args.unshift(x)\<close> puts \<open>x\<close> in front of the array and returns the new length:
  the pair is the value returned and the array afterwards.
\<close>

definition unshift :: "val \<Rightarrow> val list \<Rightarrow> nat \<times> val list" where
  "unshift x args = (Suc (length args), x # args)"

text \<open>
  \<^verbatim>\<open>
  handleSuccess (resolve, cb) {
    let args = _.toArray(arguments).slice(2)
    if (_.isFunction(cb)) {
      cb.apply(this, args.unshift(null))
    }
    return resolve.apply(this, args)
  }\<close>
\<close>

definition handleSuccess :: "jsval \<Rightarrow> val list \<Rightarrow> state \<Rightarrow> completion \<times> state" where
  "handleSuccess cb args s =
     (case s of (p, w) \<Rightarrow>
        if isFunction cb then
          (case unshift (Data JNull) args of (n, args') \<Rightarrow>
             (case cb_apply (ArgNumber n) w of
                (Some e, w') \<Rightarrow> (Throws (Err e), (p, w'))
              | (None, w') \<Rightarrow> (Returns (Plain (Data JUndefined)), (resolve_apply args' p, w'))))
        else (Returns (Plain (Data JUndefined)), (resolve_apply args p, w)))"

text \<open>
  \<^verbatim>\<open>
  handleRejection (reject, cb) {
    let args = _.toArray(arguments).slice(2)
    if (_.isFunction(cb)) {
      cb.apply(this, args)
    }
    return reject.apply(this, args)
  }\<close>
\<close>

definition handleRejection :: "jsval \<Rightarrow> val list \<Rightarrow> state \<Rightarrow> completion \<times> state" where
  "handleRejection cb args s =
     (case s of (p, w) \<Rightarrow>
        if isFunction cb then
          (case cb_apply (ArgArray args) w of
             (Some e, w') \<Rightarrow> (Throws (Err e), (p, w'))
           | (None, w') \<Rightarrow> (Returns (Plain (Data JUndefined)), (reject_apply args p, w')))
        else (Returns (Plain (Data JUndefined)), (reject_apply args p, w)))"

text \<open>
  \<^verbatim>\<open>new Promise(executor)\<close>: the executor runs on a pending promise; if it throws,
  the promise is rejected with what was thrown (unless settled already). The
  handlers the executor attaches to other promises run later; running them here, in
  their order, gives the state the promise ends in.
\<close>

definition new_Promise :: "(state \<Rightarrow> completion \<times> state) \<Rightarrow> world \<Rightarrow> promise \<times> world" where
  "new_Promise executor w =
     (case executor (Pending, w) of
        (Returns r, (p, w')) \<Rightarrow> (p, w')
      | (Throws e, (p, w')) \<Rightarrow> (reject_apply [e] p, w'))"

text \<open>
  \<^verbatim>\<open>q.then(f)\<close>: when \<open>q\<close> fulfils, \<open>f\<close> runs on its value and the new promise
  fulfils with what \<open>f\<close> returns, follows the promise \<open>f\<close> returns, or rejects with
  what \<open>f\<close> throws; a rejection of \<open>q\<close> passes through. \<^verbatim>\<open>q.catch(f)\<close> is the
  same for a rejection of \<open>q\<close>, a fulfilment passing through.
\<close>

definition settle :: "completion \<times> state \<Rightarrow> promise \<times> state" where
  "settle r =
     (case r of
        (Returns (Plain v), s) \<Rightarrow> (Fulfilled v, s)
      | (Returns (Promise q), s) \<Rightarrow> (q, s)
      | (Throws e, s) \<Rightarrow> (Rejected e, s))"

definition then' :: "(val \<Rightarrow> state \<Rightarrow> completion \<times> state) \<Rightarrow> promise \<Rightarrow> state \<Rightarrow> promise \<times> state" where
  "then' f q s =
     (case q of
        Fulfilled v \<Rightarrow> settle (f v s)
      | Rejected e \<Rightarrow> (Rejected e, s)
      | Pending \<Rightarrow> (Pending, s))"

definition catch' :: "(val \<Rightarrow> state \<Rightarrow> completion \<times> state) \<Rightarrow> promise \<Rightarrow> state \<Rightarrow> promise \<times> state" where
  "catch' f q s =
     (case q of
        Rejected e \<Rightarrow> settle (f e s)
      | Fulfilled v \<Rightarrow> (Fulfilled v, s)
      | Pending \<Rightarrow> (Pending, s))"

section \<open>sendRequest\<close>

text \<open>
  \<^verbatim>\<open>got(options)\<close> records the request and returns the transport's promise.
\<close>

definition got :: "obj \<Rightarrow> transport \<Rightarrow> world \<Rightarrow> promise \<times> world" where
  "got opts t w =
     ((case t of
         Responds r \<Rightarrow> Fulfilled (Resp r)
       | Fails m \<Rightarrow> Rejected (Err (TransportError m))
       | Hangs \<Rightarrow> Pending),
      w\<lparr>requests := requests w @ [opts]\<rparr>)"

text \<open>
  The option object of the one \<^verbatim>\<open>got\<close> call in \<^verbatim>\<open>sendRequest\<close>:
  \<^verbatim>\<open>{method: 'POST', url: `https://${this.host}/json/${this.version}/${action}`,
  json: data, responseType: 'json'}\<close>.
\<close>

definition request_options :: "client \<Rightarrow> string \<Rightarrow> jsval \<Rightarrow> obj" where
  "request_options this action data =
     [(''method'', JStr ''POST''),
      (''url'', JStr (''https://'' @ host this @ ''/json/'' @ version this @ ''/'' @ action)),
      (''json'', data),
      (''responseType'', JStr ''json'')]"

text \<open>
  \<^verbatim>\<open>
  sendRequest (action, data, cb) {
    return new Promise((resolve, reject) => {
      return got({...}).then((response) => {
        return this.handleSuccess(resolve, cb, response)
      }).catch((error) => {
        return this.handleRejection(reject, cb, error)
      })
    })
  }\<close>
\<close>

definition sendRequest :: "client \<Rightarrow> string \<Rightarrow> jsval \<Rightarrow> jsval \<Rightarrow> transport \<Rightarrow> world \<Rightarrow> promise \<times> world" where
  "sendRequest this action data cb t w =
     new_Promise (\<lambda>s.
       case s of (p, w0) \<Rightarrow>
         (case got (request_options this action data) t w0 of (q, w1) \<Rightarrow>
            (case then' (\<lambda>response. handleSuccess cb [response]) q (p, w1) of (q1, s1) \<Rightarrow>
               (case catch' (\<lambda>error. handleRejection cb [error]) q1 s1 of (q2, s2) \<Rightarrow>
                  (Returns (Promise q2), s2))))) w"

section \<open>parseResponse\<close>

text \<open>
  \<^verbatim>\<open>
  parseResponse (response, cb) {
    return new Promise((resolve, reject) => {
      if (response.statusCode === 200 && response.body.status_code === 200) {
        return this.handleSuccess(resolve, cb, response.body.response)
      } else {
        return this.handleRejection(reject, cb, new Error(
          `Pushwoosh API responded with argument error: ${response.body.status_message}`))
      }
    })
  }\<close>
  Every object with a \<^verbatim>\<open>body\<close> is a response (\<open>Resp\<close>), whatever its status
  codes are. The other values have no \<^verbatim>\<open>body\<close>: reading
  \<^verbatim>\<open>response.body.status_message\<close> (or \<^verbatim>\<open>response.statusCode\<close> of
  \<^verbatim>\<open>undefined\<close>) throws a \<^verbatim>\<open>TypeError\<close> in the executor.
\<close>

definition parseResponse :: "val \<Rightarrow> jsval \<Rightarrow> world \<Rightarrow> promise \<times> world" where
  "parseResponse response' cb w =
     new_Promise (\<lambda>s.
       case response' of
         Resp r \<Rightarrow>
           if statusCode r = JNum 200 \<and> status_code (body r) = JNum 200
           then handleSuccess cb [Data (response (body r))] s
           else handleRejection cb
                  [Err (Error (''Pushwoosh API responded with argument error: ''
                               @ status_message (body r)))] s
       | other \<Rightarrow> (Throws (Err TypeError), s)) w"

section \<open>sendMessage\<close>

text \<open>
  The defaults of \<^verbatim>\<open>sendMessage\<close>:
  \<^verbatim>\<open>{send_date: 'now', ignore_user_timezone: true, minimize_link: 0}\<close>.
\<close>

definition message_defaults :: obj where
  "message_defaults =
     [(''send_date'', JStr ''now''),
      (''ignore_user_timezone'', JBool True),
      (''minimize_link'', JNum 0)]"

text \<open>The notification: \<^verbatim>\<open>_.extend({}, defaults, options)\<close>.\<close>

definition notification :: "jsval \<Rightarrow> obj" where
  "notification options = extend_obj [] [JObj message_defaults, options]"

text \<open>
  The request object of \<^verbatim>\<open>sendMessage\<close>:
  \<^verbatim>\<open>
  let body = {request: {auth: this.token,
                        notifications: [_.extend({}, defaults, options)]}}
  if (this.useAppGroup) {
    body.request.application_group = this.app
  } else {
    body.request.application = this.app
  }\<close>
\<close>

definition createMessage_request :: "client \<Rightarrow> jsval \<Rightarrow> obj" where
  "createMessage_request this options =
     (let request = [(''auth'', JStr (token this)),
                     (''notifications'', JArr [JObj (notification options)])]
      in if truthy (useAppGroup this)
         then set_prop ''application_group'' (JStr (app this)) request
         else set_prop ''application'' (JStr (app this)) request)"

definition createMessage_body :: "client \<Rightarrow> jsval \<Rightarrow> jsval" where
  "createMessage_body this options = JObj [(''request'', JObj (createMessage_request this options))]"

text \<open>
  \<^verbatim>\<open>
  sendMessage (options, cb) {
    ...
    return new Promise((resolve, reject) => {
      ...
      return this.sendRequest('createMessage', body)
        .then((response) => {
          return this.parseResponse(response, cb)
        })
        .then((parsedResponse) => {
          return this.handleSuccess(resolve, cb, parsedResponse)
        })
        .catch((error) => {
          return this.handleRejection(reject, cb, error)
        })
    })
  }\<close>
  \<^verbatim>\<open>sendRequest\<close> is called without a callback, \<^verbatim>\<open>parseResponse\<close> with the
  caller's.
\<close>

definition sendMessage :: "client \<Rightarrow> jsval \<Rightarrow> jsval \<Rightarrow> transport \<Rightarrow> world \<Rightarrow> promise \<times> world" where
  "sendMessage this options cb t w =
     new_Promise (\<lambda>s.
       case s of (p, w0) \<Rightarrow>
         (case sendRequest this ''createMessage'' (createMessage_body this options) JUndefined t w0
          of (q, w1) \<Rightarrow>
            (case then' (\<lambda>response s'.
                     case s' of (p', w') \<Rightarrow>
                       (case parseResponse response cb w' of (r, w'') \<Rightarrow>
                          (Returns (Promise r), (p', w''))))
                   q (p, w1) of (q1, s1) \<Rightarrow>
               (case then' (\<lambda>parsedResponse. handleSuccess cb [parsedResponse]) q1 s1
                of (q2, s2) \<Rightarrow>
                  (case catch' (\<lambda>error. handleRejection cb [error]) q2 s2 of (q3, s3) \<Rightarrow>
                     (Returns (Promise q3), s3)))))) w"

section \<open>registerDevice\<close>

text \<open>The body of \<^verbatim>\<open>registerDevice\<close>:
  \<^verbatim>\<open>{request: _.extend({}, {application: this.app}, options)}\<close>.\<close>

definition registerDevice_body :: "client \<Rightarrow> jsval \<Rightarrow> jsval" where
  "registerDevice_body this options =
     JObj [(''request'',
            JObj (extend_obj [] [JObj [(''application'', JStr (app this))], options]))]"

text \<open>
  \<^verbatim>\<open>
  registerDevice (options, cb) {
    return new Promise((resolve, reject) => {
      if (!_.isString(options.push_token)) {
        return this.handleRejection(reject, cb,
          new Error('Device push token is mandatory (string)'))
      }
      if (_.isString(options.hwid)) {
        return this.handleRejection(reject, cb,
          new Error('Device hwid token is mandatory (string)'))
      }
      if (_.isNumber(options.device_type)) {
        return this.handleRejection(reject, cb,
          new Error('Device type is mandatory (number)'))
      }
      let body = {...}
      return this.sendRequest('registerDevice', body)
        .then((response) => {
          return this.handleSuccess(resolve, cb, response)
        })
        .catch((error) => {
          return this.handleRejection(reject, cb, error)
        })
    })
  }\<close>
  Reading \<^verbatim>\<open>options.push_token\<close> throws a \<^verbatim>\<open>TypeError\<close> when \<open>options\<close> is
  \<^verbatim>\<open>undefined\<close> or \<^verbatim>\<open>null\<close>.
\<close>

definition registerDevice :: "client \<Rightarrow> jsval \<Rightarrow> jsval \<Rightarrow> transport \<Rightarrow> world \<Rightarrow> promise \<times> world" where
  "registerDevice this options cb t w =
     new_Promise (\<lambda>s.
       case s of (p, w0) \<Rightarrow>
         if nullish options then (Throws (Err TypeError), s)
         else if \<not> isString (get_prop options ''push_token'')
         then handleRejection cb [Err (Error ''Device push token is mandatory (string)'')] s
         else if isString (get_prop options ''hwid'')
         then handleRejection cb [Err (Error ''Device hwid token is mandatory (string)'')] s
         else if isNumber (get_prop options ''device_type'')
         then handleRejection cb [Err (Error ''Device type is mandatory (number)'')] s
         else
           (case sendRequest this ''registerDevice'' (registerDevice_body this options) JUndefined t w0
            of (q, w1) \<Rightarrow>
              (case then' (\<lambda>response. handleSuccess cb [response]) q (p, w1) of (q1, s1) \<Rightarrow>
                 (case catch' (\<lambda>error. handleRejection cb [error]) q1 s1 of (q2, s2) \<Rightarrow>
                    (Returns (Promise q2), s2))))) w"

section \<open>deleteMessage\<close>



section \<open>Example values\<close>

text \<open>
  A client built with the defaults, one built with \<^verbatim>\<open>{useAppGroup: true}\<close>, one
  built with \<^verbatim>\<open>{timeout: 5000}\<close>, and two responses of the API: an accepted
  request and a refused one.
\<close>

definition example_client :: client where
  "example_client =
     \<lparr>host = ''cp.pushwoosh.com'', url = ''https://cp.pushwoosh.com/json'',
      version = ''1.3'', useAppGroup = JUndefined, timeout = JUndefined,
      app = ''APP'', token = ''TOKEN''\<rparr>"

definition example_group_client :: client where
  "example_group_client = example_client\<lparr>useAppGroup := JBool True\<rparr>"

definition example_timeout_client :: client where
  "example_timeout_client = example_client\<lparr>timeout := JNum 5000\<rparr>"

definition accepted :: api_response where
  "accepted =
     \<lparr>statusCode = JNum 200,
      body = \<lparr>status_code = JNum 200, status_message = ''OK'',
              response = JObj [(''Messages'', JArr [JStr ''M1''])]\<rparr>\<rparr>"

definition refused :: api_response where
  "refused =
     \<lparr>statusCode = JNum 200,
      body = \<lparr>status_code = JNum 210, status_message = ''Argument error'',
              response = JNull\<rparr>\<rparr>"

section \<open>Auxiliary facts\<close>

lemmas handler_defs = handleSuccess_def handleRejection_def cb_apply_def unshift_def
  resolve_apply_def reject_apply_def first_arg_def

lemmas promise_defs = new_Promise_def then'_def catch'_def settle_def got_def

lemmas example_defs = example_client_def example_group_client_def
  example_timeout_client_def accepted_def refused_def world0_def

lemma map_of_insert_index:
  "map_of object key = None \<Longrightarrow>
   map_of (insert_index n key v object) = (map_of object)(key \<mapsto> v)"
proof (induction object)
  case Nil
  then show ?case by simp
next
  case (Cons a object)
  obtain k x where a: "a = (k, x)" by (cases a)
  from Cons.prems a have neq: "k \<noteq> key" and rest: "map_of object key = None"
    by (auto split: if_splits)
  from rest have "map_of (insert_index n key v object) = (map_of object)(key \<mapsto> v)"
    by (rule Cons.IH)
  with neq show ?case
    by (auto simp: a fun_eq_iff split: option.splits)
qed

lemma map_of_set_prop:
  "map_of (set_prop key v object) = (map_of object)(key \<mapsto> v)"
proof (cases "map_of object key")
  case None
  then show ?thesis
    by (auto simp: set_prop_def map_of_insert_index fun_eq_iff map_add_def
        split: option.splits)
next
  case (Some old)
  then show ?thesis by (simp add: set_prop_def update_conv')
qed

lemma map_of_assign_notin:
  "k \<notin> fst ` set props \<Longrightarrow> map_of (assign object props) k = map_of object k"
  by (induction props arbitrary: object) (auto simp: map_of_set_prop)

lemma map_of_assign_distinct:
  "distinct (map fst props) \<Longrightarrow>
   map_of (assign object props) = map_of object ++ map_of props"
proof (induction props arbitrary: object)
  case Nil
  then show ?case by simp
next
  case (Cons a props)
  obtain k v where a: "a = (k, v)" by (cases a)
  from Cons.prems a have fresh: "map_of props k = None"
    by (simp add: map_of_eq_None_iff)
  from Cons.prems have "distinct (map fst props)" by simp
  then have "map_of (assign (set_prop k v object) props)
      = map_of (set_prop k v object) ++ map_of props"
    by (rule Cons.IH)
  also have "\<dots> = map_of object ++ map_of ((k, v) # props)"
    using fresh by (auto simp: map_of_set_prop fun_eq_iff map_add_def split: option.splits)
  finally have "map_of (assign (set_prop k v object) props)
      = map_of object ++ map_of ((k, v) # props)" .
  then show ?case by (simp only: a assign.simps)
qed

lemma distinct_message_defaults: "distinct (map fst message_defaults)"
  by (simp add: message_defaults_def)

lemma notification_lookup:
  "distinct (map fst (enumerable_props options)) \<Longrightarrow>
   map_of (notification options) k =
     (case map_of (enumerable_props options) k of
        Some v \<Rightarrow> Some v
      | None \<Rightarrow> map_of message_defaults k)"
  by (simp add: notification_def extend_obj_def map_of_assign_distinct
      distinct_message_defaults map_add_def)

lemma notification_default:
  "map_of (enumerable_props options) k = None \<Longrightarrow>
   map_of (notification options) k = map_of message_defaults k"
  by (simp add: notification_def extend_obj_def map_of_assign_notin
      map_of_assign_distinct distinct_message_defaults map_of_eq_None_iff)

text \<open>The keys a string or an array gives are decimal numerals.\<close>

lemma string_of_nat_digits: "set (string_of_nat n) \<subseteq> set ''0123456789''"
proof (induction n rule: string_of_nat.induct)
  case (1 n)
  show ?case
  proof (cases "n < 10")
    case True
    then have "digit n \<in> set ''0123456789''"
      unfolding digit_def by (intro nth_mem) simp
    with True show ?thesis by (subst string_of_nat.simps) simp
  next
    case False
    have "n mod 10 < 10" by simp
    then have "digit (n mod 10) \<in> set ''0123456789''"
      unfolding digit_def by (intro nth_mem) simp
    with False "1.IH" show ?thesis by (subst string_of_nat.simps) simp
  qed
qed

lemma index_props_keys:
  "key \<in> fst ` set (index_props i xs) \<Longrightarrow> set key \<subseteq> set ''0123456789''"
  by (induction i xs rule: index_props.induct) (use string_of_nat_digits in auto)

lemma notification_string_no_content:
  "map_of (notification (JStr s)) ''content'' = None"
proof -
  have "''content'' \<notin> fst ` set (index_props 0 (map (\<lambda>c. JStr [c]) s))"
    using index_props_keys [of "''content''" 0 "map (\<lambda>c. JStr [c]) s"] by auto
  then have "map_of (enumerable_props (JStr s)) ''content'' = None"
    by (simp add: map_of_eq_None_iff)
  then have "map_of (notification (JStr s)) ''content'' = map_of message_defaults ''content''"
    by (rule notification_default)
  then show ?thesis by (simp add: message_defaults_def)
qed

lemma createMessage_request_eq:
  "createMessage_request this options =
     [(''auth'', JStr (token this)),
      (''notifications'', JArr [JObj (notification options)]),
      (if truthy (useAppGroup this) then ''application_group'' else ''application'',
       JStr (app this))]"
  by (simp add: createMessage_request_def Let_def set_prop_def array_index_def
      digit_value_def)

lemma string_of_nat_small:
  "string_of_nat 0 = ''0''"
  "string_of_nat (Suc 0) = ''1''"
  "string_of_nat (Suc (Suc 0)) = ''2''"
  "string_of_nat (Suc (Suc (Suc 0))) = ''3''"
  "string_of_nat (Suc (Suc (Suc (Suc 0)))) = ''4''"
  by (simp_all add: string_of_nat.simps digit_def)

lemma notification_hello:
  "notification (JStr ''hello'') =
     [(''0'', JStr ''h''), (''1'', JStr ''e''), (''2'', JStr ''l''),
      (''3'', JStr ''l''), (''4'', JStr ''o''),
      (''send_date'', JStr ''now''), (''ignore_user_timezone'', JBool True),
      (''minimize_link'', JNum 0)]"
  by (simp add: notification_def extend_obj_def message_defaults_def
      string_of_nat_small set_prop_def array_index_def digit_value_def)

text \<open>Without a callback \<^verbatim>\<open>sendRequest\<close> hands the transport's outcome on.\<close>

lemma sendRequest_no_callback:
  "sendRequest this action data JUndefined t w =
     ((case t of
         Responds r \<Rightarrow> Fulfilled (Resp r)
       | Fails m \<Rightarrow> Rejected (Err (TransportError m))
       | Hangs \<Rightarrow> Pending),
      w\<lparr>requests := requests w @ [request_options this action data]\<rparr>)"
  by (cases t; simp add: sendRequest_def promise_defs handler_defs)

lemma sendMessage_requests:
  "requests (snd (sendMessage this options cb t w)) =
     requests w @ [request_options this ''createMessage'' (createMessage_body this options)]"
  by (cases t; cases "isFunction cb";
      simp add: sendMessage_def sendRequest_no_callback parseResponse_def
        promise_defs handler_defs)


text \<open>
  Without a callback \<^verbatim>\<open>parseResponse\<close> decides on the two status codes, and a
  failure of the transport reaches the promise and the callback once.
\<close>

lemma parseResponse_no_callback:
  "\<not> isFunction cb \<Longrightarrow>
   parseResponse (Resp r) cb w =
     (if statusCode r = JNum 200 \<and> status_code (body r) = JNum 200
      then Fulfilled (Data (response (body r)))
      else Rejected (Err (Error (''Pushwoosh API responded with argument error: ''
                                 @ status_message (body r)))),
      w)"
  by (simp add: parseResponse_def promise_defs handler_defs)

lemma sendRequest_transport_failure:
  "sendRequest this action data cb (Fails m) w =
     (Rejected (Err (TransportError m)),
      w\<lparr>requests := requests w @ [request_options this action data],
        cb_calls := (if isFunction cb
                     then cb_calls w @ [[Err (TransportError m)]]
                     else cb_calls w)\<rparr>)"
  by (cases "isFunction cb"; simp add: sendRequest_def promise_defs handler_defs)

text \<open>
  What \<^verbatim>\<open>sendMessage\<close> ends in, for every argument: the one request, and a promise
  and callback calls that the transport's answer and the presence of a callback
  decide.
\<close>

lemma sendMessage_outcome:
  "sendMessage this options cb t w =
     (case t of
        Hangs \<Rightarrow>
          (Pending,
           w\<lparr>requests := requests w @
                [request_options this ''createMessage'' (createMessage_body this options)]\<rparr>)
      | Fails m \<Rightarrow>
          (Rejected (Err (TransportError m)),
           w\<lparr>requests := requests w @
                [request_options this ''createMessage'' (createMessage_body this options)],
             cb_calls := (if isFunction cb
                          then cb_calls w @ [[Err (TransportError m)]]
                          else cb_calls w)\<rparr>)
      | Responds r \<Rightarrow>
          if statusCode r = JNum 200 \<and> status_code (body r) = JNum 200
          then if isFunction cb
               then (Rejected (Err TypeError),
                     w\<lparr>requests := requests w @
                          [request_options this ''createMessage''
                             (createMessage_body this options)],
                       cb_calls := cb_calls w @ [[Err TypeError]]\<rparr>)
               else (Fulfilled (Data (response (body r))),
                     w\<lparr>requests := requests w @
                          [request_options this ''createMessage''
                             (createMessage_body this options)]\<rparr>)
          else (Rejected (Err (Error (''Pushwoosh API responded with argument error: ''
                                      @ status_message (body r)))),
                w\<lparr>requests := requests w @
                     [request_options this ''createMessage''
                        (createMessage_body this options)],
                  cb_calls :=
                    (if isFunction cb
                     then cb_calls w @
                       [[Err (Error (''Pushwoosh API responded with argument error: ''
                                     @ status_message (body r)))],
                        [Err (Error (''Pushwoosh API responded with argument error: ''
                                     @ status_message (body r)))]]
                     else cb_calls w)\<rparr>))"
  by (cases t; cases "isFunction cb";
      simp add: sendMessage_def sendRequest_no_callback parseResponse_def
        promise_defs handler_defs)

section \<open>Construction\<close>

text \<open>
  C2, as the code has it: construction fails if and only if the application id or
  the authentication token is not a string. The check is \<^verbatim>\<open>_.isString\<close> alone, so
  an empty string is accepted; every value that is not a string is refused, with
  the error \<^verbatim>\<open>'Pushwoosh Application ID and an Authentication Token must be set'\<close>.
\<close>

theorem constructor_fails_iff_not_string:
  "((\<exists>e. constructor a t opts = Inl e) \<longleftrightarrow> (\<not> isString a \<or> \<not> isString t))
   \<and> (\<not> isString a \<or> \<not> isString t \<longrightarrow>
        constructor a t opts =
          Inl (Error ''Pushwoosh Application ID and an Authentication Token must be set''))"
  by (simp add: constructor_def Let_def)

theorem constructor_fails_iff_not_string_witness:
  "(\<exists>e. constructor (JNum 7) (JStr ''TOKEN'') None = Inl e)
   \<and> constructor (JNum 7) (JStr ''TOKEN'') None =
       Inl (Error ''Pushwoosh Application ID and an Authentication Token must be set'')
   \<and> \<not> (\<exists>e. constructor (JStr ''APP'') (JStr ''TOKEN'') None = Inl e)"
  using constructor_fails_iff_not_string [of "JNum 7" "JStr ''TOKEN''" None]
    constructor_fails_iff_not_string [of "JStr ''APP''" "JStr ''TOKEN''" None]
  by simp

text \<open>An empty application id and an empty token construct a client.\<close>

theorem constructor_empty_string_counterexample:
  "constructor (JStr '''') (JStr '''') None =
     Inr \<lparr>host = ''cp.pushwoosh.com'', url = ''https://cp.pushwoosh.com/json'',
          version = ''1.3'', useAppGroup = JUndefined, timeout = JUndefined,
          app = '''', token = ''''\<rparr>"
  by (simp add: constructor_def or_default_def no_options_def default_host_def
      default_url_def default_version_def)

section \<open>The completion helpers\<close>

text \<open>
  C4 asks that a successful call resolves the promise and calls the callback with
  \<^verbatim>\<open>(null, ...results)\<close>, once each. \<^verbatim>\<open>handleSuccess\<close> passes the value of
  \<^verbatim>\<open>args.unshift(null)\<close>, the new length, to \<^verbatim>\<open>cb.apply\<close>, which throws. So with
  a callback and a transport that responds, \<^verbatim>\<open>sendRequest\<close> rejects with the
  \<^verbatim>\<open>TypeError\<close> and the callback is called with that error alone; and when the
  API refuses a message, \<^verbatim>\<open>sendMessage\<close> calls the callback twice with the error,
  once from \<^verbatim>\<open>parseResponse\<close> and once from its own \<^verbatim>\<open>catch\<close>.
\<close>

theorem sendRequest_callback_success_rejects:
  "sendRequest this action data (JFun f) (Responds r) w =
     (Rejected (Err TypeError),
      w\<lparr>requests := requests w @ [request_options this action data],
        cb_calls := cb_calls w @ [[Err TypeError]]\<rparr>)
   \<and> cb_calls (snd (sendMessage this options (JFun f) (Responds refused) w)) =
       cb_calls w @
         [[Err (Error ''Pushwoosh API responded with argument error: Argument error'')],
          [Err (Error ''Pushwoosh API responded with argument error: Argument error'')]]"
  by (simp add: sendRequest_def sendMessage_def sendRequest_no_callback parseResponse_def
      promise_defs handler_defs refused_def)

section \<open>parseResponse\<close>

text \<open>
  C3 asks that \<^verbatim>\<open>parseResponse\<close> succeeds with \<^verbatim>\<open>response.body.response\<close> exactly
  when both status codes are 200. Called with a callback, as \<^verbatim>\<open>sendMessage\<close> calls
  it, it rejects with a \<^verbatim>\<open>TypeError\<close> on such a response and the callback is not
  called: \<^verbatim>\<open>handleSuccess\<close> throws in \<^verbatim>\<open>cb.apply\<close>.
\<close>

theorem parseResponse_callback_success_rejects:
  "parseResponse
     (Resp \<lparr>statusCode = JNum 200,
            body = \<lparr>status_code = JNum 200, status_message = msg, response = payload\<rparr>\<rparr>)
     (JFun f) w
   = (Rejected (Err TypeError), w)"
  by (simp add: parseResponse_def promise_defs handler_defs)

section \<open>registerDevice\<close>

text \<open>
  C1 asks that \<^verbatim>\<open>registerDevice\<close> fails exactly when \<^verbatim>\<open>push_token\<close> is not a
  string, \<^verbatim>\<open>hwid\<close> is not a string or \<^verbatim>\<open>device_type\<close> is not a number. The
  second and third tests of the code lack the negation: a registration with a string
  \<^verbatim>\<open>push_token\<close>, a string \<^verbatim>\<open>hwid\<close> and a numeric \<^verbatim>\<open>device_type\<close> is
  rejected with \<^verbatim>\<open>'Device hwid token is mandatory (string)'\<close> and nothing is
  sent, while a registration whose \<^verbatim>\<open>hwid\<close> is a number and that has no
  \<^verbatim>\<open>device_type\<close> is sent.
\<close>

theorem registerDevice_inverted_checks:
  "registerDevice this
     (JObj [(''push_token'', JStr ''tok''), (''hwid'', JStr ''hw-1''), (''device_type'', JNum 3)])
     cb t w
   = (Rejected (Err (Error ''Device hwid token is mandatory (string)'')),
      if isFunction cb
      then w\<lparr>cb_calls := cb_calls w @ [[Err (Error ''Device hwid token is mandatory (string)'')]]\<rparr>
      else w)
   \<and> requests (snd (registerDevice this
         (JObj [(''push_token'', JStr ''tok''), (''hwid'', JNum 7)]) JUndefined t w))
     = requests w @
         [request_options this ''registerDevice''
            (JObj [(''request'',
                    JObj [(''application'', JStr (app this)),
                          (''push_token'', JStr ''tok''), (''hwid'', JNum 7)])])]"
  by (cases t; simp add: registerDevice_def registerDevice_body_def extend_obj_def
      set_prop_def array_index_def digit_value_def sendRequest_no_callback
      promise_defs handler_defs)

section \<open>sendRequest\<close>

text \<open>
  C6, as the code has it: for every action name and body \<^verbatim>\<open>sendRequest\<close> makes
  exactly one request, a POST to \<^verbatim>\<open>https://{host}/json/{version}/{action}\<close> with
  the body under \<^verbatim>\<open>json\<close>. The options given to the transport are \<^verbatim>\<open>method\<close>,
  \<^verbatim>\<open>url\<close>, \<^verbatim>\<open>json\<close> and \<^verbatim>\<open>responseType\<close> and nothing else: no timeout is
  passed, whatever the client holds.
\<close>

theorem sendRequest_single_post:
  "requests (snd (sendRequest this action data cb t w)) =
     requests w @
       [[(''method'', JStr ''POST''),
         (''url'', JStr (''https://'' @ host this @ ''/json/'' @ version this @ ''/'' @ action)),
         (''json'', data),
         (''responseType'', JStr ''json'')]]"
  by (cases t; cases "isFunction cb";
      simp add: sendRequest_def request_options_def promise_defs handler_defs)

theorem sendRequest_single_post_witness:
  "requests (snd (sendRequest example_client ''deleteMessage'' (JObj []) JUndefined
                    (Responds accepted) world0)) =
     [[(''method'', JStr ''POST''),
       (''url'', JStr ''https://cp.pushwoosh.com/json/1.3/deleteMessage''),
       (''json'', JObj []),
       (''responseType'', JStr ''json'')]]"
  using sendRequest_single_post [of example_client "''deleteMessage''" "JObj []" JUndefined
      "Responds accepted" world0]
  by (simp add: example_defs)

text \<open>
  A client constructed with \<^verbatim>\<open>{timeout: 5000}\<close> holds the timeout, and the request
  it makes carries none.
\<close>

theorem sendRequest_timeout_counterexample:
  "constructor (JStr ''APP'') (JStr ''TOKEN'')
     (Some (no_options\<lparr>opt_timeout := Some (JNum 5000)\<rparr>)) = Inr example_timeout_client
   \<and> timeout example_timeout_client = JNum 5000
   \<and> requests (snd (sendRequest example_timeout_client ''createMessage'' (JObj [])
                       JUndefined (Responds accepted) world0))
     = [[(''method'', JStr ''POST''),
         (''url'', JStr ''https://cp.pushwoosh.com/json/1.3/createMessage''),
         (''json'', JObj []),
         (''responseType'', JStr ''json'')]]
   \<and> map_of (request_options example_timeout_client ''createMessage'' (JObj [])) ''timeout''
     = None"
  by (simp add: constructor_def or_default_def no_options_def default_host_def
      default_url_def default_version_def example_defs sendRequest_no_callback
      request_options_def)

section \<open>sendMessage\<close>

text \<open>
  C5, as the code has it: \<^verbatim>\<open>sendMessage\<close> takes the options object and checks
  nothing. For every argument, with a string content or without, it makes the one
  \<^verbatim>\<open>createMessage\<close> request, and what the promise and the callback get does not
  depend on the argument: the promise stays pending while the transport hangs, is
  rejected with the transport's error when the transport fails, is rejected with the
  API's \<^verbatim>\<open>argument error\<close> unless both status codes are 200, and on an answer
  with both codes 200 fulfils with the response's payload when no callback is given
  (with a callback it is rejected with the \<^verbatim>\<open>TypeError\<close> of \<^verbatim>\<open>handleSuccess\<close>).
  No other error exists.
\<close>

theorem sendMessage_no_validation:
  "requests (snd (sendMessage this options cb t w)) =
     requests w @
       [[(''method'', JStr ''POST''),
         (''url'', JStr (''https://'' @ host this @ ''/json/'' @ version this
                         @ ''/createMessage'')),
         (''json'', JObj [(''request'', JObj (createMessage_request this options))]),
         (''responseType'', JStr ''json'')]]
   \<and> fst (sendMessage this options cb t w) =
       (case t of
          Hangs \<Rightarrow> Pending
        | Fails m \<Rightarrow> Rejected (Err (TransportError m))
        | Responds r \<Rightarrow>
            if statusCode r = JNum 200 \<and> status_code (body r) = JNum 200
            then if isFunction cb then Rejected (Err TypeError)
                 else Fulfilled (Data (response (body r)))
            else Rejected (Err (Error (''Pushwoosh API responded with argument error: ''
                                       @ status_message (body r)))))
   \<and> cb_calls (snd (sendMessage this options cb t w)) =
       (if isFunction cb
        then cb_calls w @
          (case t of
             Hangs \<Rightarrow> []
           | Fails m \<Rightarrow> [[Err (TransportError m)]]
           | Responds r \<Rightarrow>
               if statusCode r = JNum 200 \<and> status_code (body r) = JNum 200
               then [[Err TypeError]]
               else [[Err (Error (''Pushwoosh API responded with argument error: ''
                                  @ status_message (body r)))],
                     [Err (Error (''Pushwoosh API responded with argument error: ''
                                  @ status_message (body r)))]])
        else cb_calls w)"
  by (cases t; simp add: sendMessage_outcome request_options_def createMessage_body_def)

theorem sendMessage_no_validation_witness:
  "requests (snd (sendMessage example_client (JNum 5) JNull (Responds accepted) world0)) =
     [[(''method'', JStr ''POST''),
       (''url'', JStr ''https://cp.pushwoosh.com/json/1.3/createMessage''),
       (''json'',
        JObj [(''request'',
               JObj [(''auth'', JStr ''TOKEN''),
                     (''notifications'',
                      JArr [JObj [(''send_date'', JStr ''now''),
                                  (''ignore_user_timezone'', JBool True),
                                  (''minimize_link'', JNum 0)]]),
                     (''application'', JStr ''APP'')])]),
       (''responseType'', JStr ''json'')]]
   \<and> fst (sendMessage example_client (JNum 5) JNull (Responds accepted) world0) =
       Fulfilled (Data (JObj [(''Messages'', JArr [JStr ''M1''])]))
   \<and> cb_calls (snd (sendMessage example_client (JNum 5) JNull (Responds accepted) world0)) = []
   \<and> fst (sendMessage example_client (JObj []) (JFun 0) (Fails ''ECONNRESET'') world0) =
       Rejected (Err (TransportError ''ECONNRESET''))
   \<and> cb_calls (snd (sendMessage example_client (JObj []) (JFun 0) (Fails ''ECONNRESET'') world0))
     = [[Err (TransportError ''ECONNRESET'')]]"
  using sendMessage_no_validation [of example_client "JNum 5" JNull "Responds accepted" world0]
    sendMessage_no_validation [of example_client "JObj []" "JFun 0" "Fails ''ECONNRESET''" world0]
  by (simp add: example_defs createMessage_request_eq notification_def extend_obj_def
      message_defaults_def set_prop_def array_index_def digit_value_def)

text \<open>An options object with no content is sent, and the promise fulfils.\<close>

theorem sendMessage_no_content_counterexample:
  "sendMessage example_client (JObj []) JUndefined (Responds accepted) world0 =
     (Fulfilled (Data (JObj [(''Messages'', JArr [JStr ''M1''])])),
      \<lparr>requests =
         [[(''method'', JStr ''POST''),
           (''url'', JStr ''https://cp.pushwoosh.com/json/1.3/createMessage''),
           (''json'',
            JObj [(''request'',
                   JObj [(''auth'', JStr ''TOKEN''),
                         (''notifications'',
                          JArr [JObj [(''send_date'', JStr ''now''),
                                      (''ignore_user_timezone'', JBool True),
                                      (''minimize_link'', JNum 0)]]),
                         (''application'', JStr ''APP'')])]),
           (''responseType'', JStr ''json'')]],
       cb_calls = []\<rparr>)"
  by (simp add: sendMessage_outcome example_defs request_options_def createMessage_body_def
      createMessage_request_eq notification_def extend_obj_def message_defaults_def
      set_prop_def array_index_def digit_value_def)

text \<open>
  C7, as the code has it: the one notification of the request is the caller's
  options object laid over the defaults
  \<^verbatim>\<open>{send_date: 'now', ignore_user_timezone: true, minimize_link: 0}\<close>: each field
  is the caller's where the options have it and the default otherwise. The content
  is the options' \<^verbatim>\<open>content\<close> field and is not set from anything else: the
  notification made from a bare string has no content.
\<close>

theorem sendMessage_notification_overlay:
  "distinct (map fst ps) \<Longrightarrow>
   requests (snd (sendMessage this (JObj ps) cb t w)) =
     requests w @
       [[(''method'', JStr ''POST''),
         (''url'', JStr (''https://'' @ host this @ ''/json/'' @ version this
                         @ ''/createMessage'')),
         (''json'', JObj [(''request'', JObj (createMessage_request this (JObj ps)))]),
         (''responseType'', JStr ''json'')]]
   \<and> map_of (createMessage_request this (JObj ps)) ''notifications''
       = Some (JArr [JObj (notification (JObj ps))])
   \<and> (\<forall>k. map_of (notification (JObj ps)) k =
          (case map_of ps k of
             Some v \<Rightarrow> Some v
           | None \<Rightarrow> map_of [(''send_date'', JStr ''now''),
                              (''ignore_user_timezone'', JBool True),
                              (''minimize_link'', JNum 0)] k))
   \<and> map_of (notification (JStr s)) ''content'' = None"
proof (intro conjI allI)
  show "requests (snd (sendMessage this (JObj ps) cb t w)) =
     requests w @
       [[(''method'', JStr ''POST''),
         (''url'', JStr (''https://'' @ host this @ ''/json/'' @ version this
                         @ ''/createMessage'')),
         (''json'', JObj [(''request'', JObj (createMessage_request this (JObj ps)))]),
         (''responseType'', JStr ''json'')]]"
    by (simp add: sendMessage_requests request_options_def createMessage_body_def)
next
  show "map_of (createMessage_request this (JObj ps)) ''notifications''
       = Some (JArr [JObj (notification (JObj ps))])"
    by (simp add: createMessage_request_eq)
next
  fix k
  assume "distinct (map fst ps)"
  then have "map_of (notification (JObj ps)) k =
      (case map_of ps k of Some v \<Rightarrow> Some v | None \<Rightarrow> map_of message_defaults k)"
    using notification_lookup [of "JObj ps" k] by simp
  then show "map_of (notification (JObj ps)) k =
          (case map_of ps k of
             Some v \<Rightarrow> Some v
           | None \<Rightarrow> map_of [(''send_date'', JStr ''now''),
                              (''ignore_user_timezone'', JBool True),
                              (''minimize_link'', JNum 0)] k)"
    by (simp only: message_defaults_def)
next
  show "map_of (notification (JStr s)) ''content'' = None"
    by (rule notification_string_no_content)
qed

theorem sendMessage_notification_overlay_witness:
  "map_of (notification (JObj [(''content'', JStr ''hello'')])) ''content''
     = Some (JStr ''hello'')
   \<and> map_of (notification (JObj [(''content'', JStr ''hello'')])) ''send_date''
     = Some (JStr ''now'')
   \<and> map_of (notification (JObj [(''content'', JStr ''hello'')])) ''ignore_user_timezone''
     = Some (JBool True)
   \<and> map_of (createMessage_request example_client (JObj [(''content'', JStr ''hello'')]))
        ''notifications''
     = Some (JArr [JObj (notification (JObj [(''content'', JStr ''hello'')]))])
   \<and> requests (snd (sendMessage example_client (JObj [(''content'', JStr ''hello'')])
                       JUndefined Hangs world0)) =
       [[(''method'', JStr ''POST''),
         (''url'', JStr ''https://cp.pushwoosh.com/json/1.3/createMessage''),
         (''json'',
          JObj [(''request'',
                 JObj [(''auth'', JStr ''TOKEN''),
                       (''notifications'',
                        JArr [JObj [(''send_date'', JStr ''now''),
                                    (''ignore_user_timezone'', JBool True),
                                    (''minimize_link'', JNum 0),
                                    (''content'', JStr ''hello'')]]),
                       (''application'', JStr ''APP'')])]),
         (''responseType'', JStr ''json'')]]"
  using sendMessage_notification_overlay [of "[(''content'', JStr ''hello'')]"
      example_client JUndefined Hangs world0]
  by (simp add: example_defs createMessage_request_eq notification_def extend_obj_def
      message_defaults_def set_prop_def array_index_def digit_value_def)

text \<open>
  \<^verbatim>\<open>sendMessage("hello")\<close>: the characters of the string become the fields
  \<^verbatim>\<open>"0"\<close> to \<^verbatim>\<open>"4"\<close> of the notification, which has no content.
\<close>

theorem sendMessage_bare_string_counterexample:
  "requests (snd (sendMessage example_client (JStr ''hello'') JUndefined Hangs world0)) =
     [[(''method'', JStr ''POST''),
       (''url'', JStr ''https://cp.pushwoosh.com/json/1.3/createMessage''),
       (''json'',
        JObj [(''request'',
               JObj [(''auth'', JStr ''TOKEN''),
                     (''notifications'',
                      JArr [JObj [(''0'', JStr ''h''), (''1'', JStr ''e''),
                                  (''2'', JStr ''l''), (''3'', JStr ''l''),
                                  (''4'', JStr ''o''),
                                  (''send_date'', JStr ''now''),
                                  (''ignore_user_timezone'', JBool True),
                                  (''minimize_link'', JNum 0)]]),
                     (''application'', JStr ''APP'')])]),
       (''responseType'', JStr ''json'')]]
   \<and> map_of (notification (JStr ''hello'')) ''content'' = None"
  by (simp add: sendMessage_requests request_options_def createMessage_body_def
      createMessage_request_eq notification_hello example_defs)

text \<open>
  C8: for every call of \<^verbatim>\<open>sendMessage\<close> the request object of the one request
  made carries \<^verbatim>\<open>application_group\<close> set to the application id and no
  \<^verbatim>\<open>application\<close> when the client's \<^verbatim>\<open>useAppGroup\<close> is true (truthy), and
  \<^verbatim>\<open>application\<close> set to the application id and no \<^verbatim>\<open>application_group\<close>
  otherwise.
\<close>

theorem sendMessage_application_group:
  "requests (snd (sendMessage this options cb t w)) =
     requests w @
       [[(''method'', JStr ''POST''),
         (''url'', JStr (''https://'' @ host this @ ''/json/'' @ version this
                         @ ''/createMessage'')),
         (''json'', JObj [(''request'', JObj (createMessage_request this options))]),
         (''responseType'', JStr ''json'')]]
   \<and> (truthy (useAppGroup this) \<longrightarrow>
        createMessage_request this options =
          [(''auth'', JStr (token this)),
           (''notifications'', JArr [JObj (notification options)]),
           (''application_group'', JStr (app this))]
        \<and> map_of (createMessage_request this options) ''application_group''
          = Some (JStr (app this))
        \<and> map_of (createMessage_request this options) ''application'' = None)
   \<and> (\<not> truthy (useAppGroup this) \<longrightarrow>
        createMessage_request this options =
          [(''auth'', JStr (token this)),
           (''notifications'', JArr [JObj (notification options)]),
           (''application'', JStr (app this))]
        \<and> map_of (createMessage_request this options) ''application''
          = Some (JStr (app this))
        \<and> map_of (createMessage_request this options) ''application_group'' = None)"
  by (simp add: sendMessage_requests request_options_def createMessage_body_def
      createMessage_request_eq)

theorem sendMessage_application_group_witness:
  "requests (snd (sendMessage example_group_client (JObj []) JUndefined Hangs world0)) =
     [[(''method'', JStr ''POST''),
       (''url'', JStr ''https://cp.pushwoosh.com/json/1.3/createMessage''),
       (''json'',
        JObj [(''request'',
               JObj [(''auth'', JStr ''TOKEN''),
                     (''notifications'',
                      JArr [JObj [(''send_date'', JStr ''now''),
                                  (''ignore_user_timezone'', JBool True),
                                  (''minimize_link'', JNum 0)]]),
                     (''application_group'', JStr ''APP'')])]),
       (''responseType'', JStr ''json'')]]
   \<and> requests (snd (sendMessage example_client (JObj []) JUndefined Hangs world0)) =
     [[(''method'', JStr ''POST''),
       (''url'', JStr ''https://cp.pushwoosh.com/json/1.3/createMessage''),
       (''json'',
        JObj [(''request'',
               JObj [(''auth'', JStr ''TOKEN''),
                     (''notifications'',
                      JArr [JObj [(''send_date'', JStr ''now''),
                                  (''ignore_user_timezone'', JBool True),
                                  (''minimize_link'', JNum 0)]]),
                     (''application'', JStr ''APP'')])]),
       (''responseType'', JStr ''json'')]]
   \<and> map_of (createMessage_request example_group_client (JObj [])) ''application_group''
     = Some (JStr ''APP'')
   \<and> map_of (createMessage_request example_group_client (JObj [])) ''application'' = None
   \<and> map_of (createMessage_request example_client (JObj [])) ''application''
     = Some (JStr ''APP'')
   \<and> map_of (createMessage_request example_client (JObj [])) ''application_group'' = None"
  using sendMessage_application_group [of example_group_client "JObj []" JUndefined Hangs world0]
    sendMessage_application_group [of example_client "JObj []" JUndefined Hangs world0]
  by (simp add: example_defs notification_def extend_obj_def message_defaults_def
      set_prop_def array_index_def digit_value_def)

text \<open>
  C10: when the options of a \<^verbatim>\<open>sendMessage\<close> call have no \<^verbatim>\<open>minimize_link\<close>
  field, the notification of the request has \<^verbatim>\<open>minimize_link\<close> with the value 0;
  when the options supply \<^verbatim>\<open>minimize_link\<close>, the notification has the caller's
  value.
\<close>

theorem sendMessage_minimize_link:
  "requests (snd (sendMessage this options cb t w)) =
     requests w @
       [[(''method'', JStr ''POST''),
         (''url'', JStr (''https://'' @ host this @ ''/json/'' @ version this
                         @ ''/createMessage'')),
         (''json'',
          JObj [(''request'',
                 JObj [(''auth'', JStr (token this)),
                       (''notifications'', JArr [JObj (notification options)]),
                       (if truthy (useAppGroup this)
                        then ''application_group'' else ''application'',
                        JStr (app this))])]),
         (''responseType'', JStr ''json'')]]
   \<and> (map_of (enumerable_props options) ''minimize_link'' = None \<longrightarrow>
        map_of (notification options) ''minimize_link'' = Some (JNum 0))
   \<and> (distinct (map fst (enumerable_props options)) \<longrightarrow>
        map_of (enumerable_props options) ''minimize_link'' = Some v \<longrightarrow>
        map_of (notification options) ''minimize_link'' = Some v)"
  using notification_lookup [of options "''minimize_link''"]
    notification_default [of options "''minimize_link''"]
  by (simp add: sendMessage_requests request_options_def createMessage_body_def
      createMessage_request_eq message_defaults_def)

theorem sendMessage_minimize_link_witness:
  "requests (snd (sendMessage example_client (JObj [(''content'', JStr ''hello'')])
                    JUndefined Hangs world0)) =
     [[(''method'', JStr ''POST''),
       (''url'', JStr ''https://cp.pushwoosh.com/json/1.3/createMessage''),
       (''json'',
        JObj [(''request'',
               JObj [(''auth'', JStr ''TOKEN''),
                     (''notifications'',
                      JArr [JObj [(''send_date'', JStr ''now''),
                                  (''ignore_user_timezone'', JBool True),
                                  (''minimize_link'', JNum 0),
                                  (''content'', JStr ''hello'')]]),
                     (''application'', JStr ''APP'')])]),
       (''responseType'', JStr ''json'')]]
   \<and> requests (snd (sendMessage example_client
                       (JObj [(''content'', JStr ''hello''), (''minimize_link'', JNum 1)])
                       JUndefined Hangs world0)) =
     [[(''method'', JStr ''POST''),
       (''url'', JStr ''https://cp.pushwoosh.com/json/1.3/createMessage''),
       (''json'',
        JObj [(''request'',
               JObj [(''auth'', JStr ''TOKEN''),
                     (''notifications'',
                      JArr [JObj [(''send_date'', JStr ''now''),
                                  (''ignore_user_timezone'', JBool True),
                                  (''minimize_link'', JNum 1),
                                  (''content'', JStr ''hello'')]]),
                     (''application'', JStr ''APP'')])]),
       (''responseType'', JStr ''json'')]]
   \<and> map_of (notification (JObj [(''content'', JStr ''hello'')])) ''minimize_link''
     = Some (JNum 0)
   \<and> map_of (notification (JObj [(''content'', JStr ''hello''), (''minimize_link'', JNum 1)]))
        ''minimize_link''
     = Some (JNum 1)"
  using sendMessage_minimize_link [of example_client "JObj [(''content'', JStr ''hello'')]"
      JUndefined Hangs world0]
    sendMessage_minimize_link [of example_client
      "JObj [(''content'', JStr ''hello''), (''minimize_link'', JNum 1)]"
      JUndefined Hangs world0 "JNum 1"]
  by (simp add: example_defs notification_def extend_obj_def message_defaults_def
      set_prop_def array_index_def digit_value_def)

section \<open>deleteMessage\<close>



end
